theory Spec2Isabelle
  imports Complex_Main
begin

section \<open>The emergency contact dialog\<close>

text \<open>
  \<^verbatim>\<open>show_emergency_contact_dialog\<close> builds a form, registers three callbacks
  (\<^verbatim>\<open>ok_proceed\<close>, \<^verbatim>\<open>cancel_close\<close>, \<^verbatim>\<open>on_closing\<close>) that share the dictionary
  \<^verbatim>\<open>result\<close>, runs the toolkit's event loop until the form is destroyed and then
  returns \<^verbatim>\<open>result if not result['cancelled'] else None\<close>.

  A Python \<^verbatim>\<open>str\<close> is modelled as a \<^typ>\<open>string\<close> whose characters are read as
  code points below 256, so \<^const>\<open>length\<close> counts what \<^verbatim>\<open>len\<close> counts.
\<close>

subsection \<open>\<^verbatim>\<open>str.strip()\<close>\<close>

text \<open>
  Without an argument \<^verbatim>\<open>strip\<close> removes leading and trailing whitespace, that is the
  characters for which \<^verbatim>\<open>str.isspace\<close> holds: below 256 these are the code points
  9 to 13, 28 to 32, 133 and 160.
\<close>

definition isspace :: "char \<Rightarrow> bool" where
  "isspace c =
     (let n = (of_char c :: nat)
      in (9 \<le> n \<and> n \<le> 13) \<or> (28 \<le> n \<and> n \<le> 32) \<or> n = 133 \<or> n = 160)"

definition strip :: "string \<Rightarrow> string" where
  "strip s = rev (dropWhile isspace (rev (dropWhile isspace s)))"

subsection \<open>State of the form\<close>

text \<open>The dictionary \<^verbatim>\<open>result\<close> with its three keys.\<close>

record contact_result =
  contact :: string
  whatsapp_preference :: bool
  cancelled :: bool

text \<open>
  What the callbacks read and write: the text of \<^verbatim>\<open>phone_entry\<close>, the value of
  \<^verbatim>\<open>whatsapp_var\<close>, the dictionary \<^verbatim>\<open>result\<close>, whether \<^verbatim>\<open>dialog.destroy()\<close> has been
  called, and the \<^verbatim>\<open>messagebox.showerror\<close> notifications shown so far, each with its
  title and message.
\<close>

record dialog =
  phone_entry :: string
  whatsapp_var :: bool
  result :: contact_result
  destroyed :: bool
  errors_shown :: "(string \<times> string) list"

text \<open>
  The form as \<^verbatim>\<open>show_emergency_contact_dialog\<close> has built it when the event loop
  starts: \<^verbatim>\<open>phone_entry.insert(0, "+91 ")\<close>, a fresh \<^verbatim>\<open>BooleanVar\<close>, and
  \<^verbatim>\<open>result = {'contact': '', 'whatsapp_preference': False, 'cancelled': True}\<close>.
\<close>

definition dialog_init :: dialog where
  "dialog_init =
     \<lparr>phone_entry = ''+91 '',
      whatsapp_var = False,
      result = \<lparr>contact = '''', whatsapp_preference = False, cancelled = True\<rparr>,
      destroyed = False,
      errors_shown = []\<rparr>"

subsection \<open>The callbacks\<close>

definition ok_proceed :: "dialog \<Rightarrow> dialog" where
  "ok_proceed d =
     (let contact = strip (phone_entry d)
      in if length contact < 10
         then d\<lparr>errors_shown := errors_shown d @
                  [(''Invalid Contact'',
                    ''Please enter a valid phone number with at least 10 digits.'')]\<rparr>
         else d\<lparr>result := \<lparr>contact = contact,
                            whatsapp_preference = whatsapp_var d,
                            cancelled = False\<rparr>,
                 destroyed := True\<rparr>)"

definition cancel_close :: "dialog \<Rightarrow> dialog" where
  "cancel_close d = d\<lparr>result := (result d)\<lparr>cancelled := True\<rparr>, destroyed := True\<rparr>"

definition on_closing :: "dialog \<Rightarrow> dialog" where
  "on_closing d = d\<lparr>result := (result d)\<lparr>cancelled := True\<rparr>, destroyed := True\<rparr>"

subsection \<open>The event loop\<close>

text \<open>
  What the user can do to the open form: replace the content of the entry by editing
  it, click the checkbox (which flips \<^verbatim>\<open>whatsapp_var\<close>), press OK, press Cancel, or
  close the window (\<^verbatim>\<open>WM_DELETE_WINDOW\<close>).
\<close>

datatype user_event = EditEntry string | ToggleCheck | ClickOK | ClickCancel | CloseWindow

fun handle_event :: "dialog \<Rightarrow> user_event \<Rightarrow> dialog" where
  "handle_event d (EditEntry t) = d\<lparr>phone_entry := t\<rparr>"
| "handle_event d ToggleCheck = d\<lparr>whatsapp_var := \<not> whatsapp_var d\<rparr>"
| "handle_event d ClickOK = ok_proceed d"
| "handle_event d ClickCancel = cancel_close d"
| "handle_event d CloseWindow = on_closing d"

text \<open>
  \<^verbatim>\<open>dialog.mainloop()\<close> dispatches the user's events to the callbacks for as long as
  the form exists; once it is destroyed no callback runs any more, whatever the user
  does. \<^verbatim>\<open>dispatch\<close> is the state in which that leaves the form.
\<close>

fun dispatch :: "dialog \<Rightarrow> user_event list \<Rightarrow> dialog" where
  "dispatch d [] = d"
| "dispatch d (e # es) = (if destroyed d then d else dispatch (handle_event d e) es)"

text \<open>
  The loop returns when the form has been destroyed. While the form is open and the
  user does nothing more, it does not return: that is \<^const>\<open>None\<close> here.
\<close>

definition mainloop :: "dialog \<Rightarrow> user_event list \<Rightarrow> dialog option" where
  "mainloop d es = (let d' = dispatch d es in if destroyed d' then Some d' else None)"

text \<open>
  The function itself. The outer \<^typ>\<open>'a option\<close> says whether the call returns on
  these user events, the inner one is Python's \<^verbatim>\<open>None\<close> or the dictionary.
\<close>

definition show_emergency_contact_dialog :: "user_event list \<Rightarrow> contact_result option option" where
  "show_emergency_contact_dialog es =
     (case mainloop dialog_init es of
        None \<Rightarrow> None
      | Some d \<Rightarrow> Some (if \<not> cancelled (result d) then Some (result d) else None))"

section \<open>The splash screen\<close>

subsection \<open>Toolkit and runtime\<close>

text \<open>
  The exceptions that the calls of \<^verbatim>\<open>SplashScreen\<close> can meet: \<^verbatim>\<open>TclError\<close>, raised by
  a command on a window or widget that has been destroyed, \<^verbatim>\<open>ValueError\<close> and
  \<^verbatim>\<open>OverflowError\<close>, raised by \<^verbatim>\<open>time.sleep\<close> for an argument it does not accept, and
  \<^verbatim>\<open>AttributeError\<close>, raised by a method call on \<^verbatim>\<open>None\<close>. An exception does not undo
  what was done before it, so a raised outcome carries the state reached when it was
  raised.
\<close>

datatype exn = TclError | ValueError | OverflowError | AttributeError

text \<open>
  A Python \<^verbatim>\<open>float\<close>: a finite number, one of the two infinities, or not a number.
  Finite values are taken as reals; the rounding of the arithmetic is left out.
\<close>

datatype pyfloat = Finite real | PosInf | NegInf | NaN

text \<open>
  \<^verbatim>\<open>x / n\<close> for a float \<open>x\<close> and a positive integer \<open>n\<close> (in \<^verbatim>\<open>show_splash\<close> the divisor
  is the length of a list of seven steps).
\<close>

fun truediv :: "pyfloat \<Rightarrow> nat \<Rightarrow> pyfloat" where
  "truediv (Finite x) n = Finite (x / real n)"
| "truediv PosInf n = PosInf"
| "truediv NegInf n = NegInf"
| "truediv NaN n = NaN"

text \<open>
  What \<^verbatim>\<open>if callback:\<close> can tell of a callback object: which one it is, and whether it
  counts as true. Every function does; an object counts as false only when its class
  says so through \<^verbatim>\<open>__bool__\<close> or \<^verbatim>\<open>__len__\<close>.
\<close>

record callback =
  callback_id :: nat
  truthy :: bool

datatype 's outcome = Returned 's | Raised exn 's

fun state_of :: "'s outcome \<Rightarrow> 's" where
  "state_of (Returned s) = s"
| "state_of (Raised e s) = s"

fun and_then :: "'s outcome \<Rightarrow> ('s \<Rightarrow> 's outcome) \<Rightarrow> 's outcome" where
  "and_then (Returned s) f = f s"
| "and_then (Raised e s) f = Raised e s"

text \<open>
  What a splash window shows: its geometry (width, height, x, y), the value of the
  variable behind the progress bar and the text of the status label. Colours, fonts
  and the logo are left out.
\<close>

record surface =
  geometry :: "int \<times> int \<times> int \<times> int"
  progress_value :: int
  status_text :: string

text \<open>
  What can be observed of a run, in the order in which it happens: the two
  \<^verbatim>\<open>print\<close> lines (\<^verbatim>\<open>Updating progress: {progress}% - {status}\<close> and
  \<^verbatim>\<open>Error updating progress: {e}\<close>, kept by their arguments), a redraw of a window
  with the value and the text it shows then, a \<^verbatim>\<open>time.sleep\<close>, the destruction
  of a window and a call of the completion callback (callbacks are told apart by a
  number).
\<close>

datatype effect =
    Printed_updating int string
  | Printed_error exn
  | Drawn nat int string
  | Slept pyfloat
  | Destroyed nat
  | Called_back nat

text \<open>
  The surroundings of the program: the size of the screen, every window created so
  far (a window is known by its position in this list, a destroyed one is
  \<^const>\<open>None\<close>), and the effects so far, oldest first.
\<close>

record world =
  screen_width :: int
  screen_height :: int
  surfaces :: "surface option list"
  effects :: "effect list"

definition lookup_surface :: "world \<Rightarrow> nat \<Rightarrow> surface option" where
  "lookup_surface w r = (if r < length (surfaces w) then surfaces w ! r else None)"

definition emit :: "effect \<Rightarrow> world \<Rightarrow> world" where
  "emit e w = w\<lparr>effects := effects w @ [e]\<rparr>"

text \<open>\<^verbatim>\<open>deiconify()\<close>: the window is already mapped, so only its existence matters.\<close>

definition tk_deiconify :: "nat \<Rightarrow> world \<Rightarrow> world outcome" where
  "tk_deiconify r w =
     (case lookup_surface w r of None \<Rightarrow> Raised TclError w | Some s \<Rightarrow> Returned w)"

text \<open>
  \<^verbatim>\<open>update()\<close> and \<^verbatim>\<open>update_idletasks()\<close>, on the window or on one of its widgets: both
  bring the display up to date, so the window is redrawn with its current content.
\<close>

definition tk_update :: "nat \<Rightarrow> world \<Rightarrow> world outcome" where
  "tk_update r w =
     (case lookup_surface w r of
        None \<Rightarrow> Raised TclError w
      | Some s \<Rightarrow> Returned (emit (Drawn r (progress_value s) (status_text s)) w))"

text \<open>
  \<^verbatim>\<open>progress_var.set(value)\<close>, for the variable of window \<open>r\<close>. The variable is kept
  by the interpreter, which outlives the window: once the window is destroyed the
  call still succeeds, and changes nothing that is shown.
\<close>

definition tk_var_set :: "nat \<Rightarrow> int \<Rightarrow> world \<Rightarrow> world outcome" where
  "tk_var_set r v w =
     (case lookup_surface w r of
        None \<Rightarrow> Returned w
      | Some s \<Rightarrow> Returned (w\<lparr>surfaces := (surfaces w)[r := Some (s\<lparr>progress_value := v\<rparr>)]\<rparr>))"

text \<open>\<^verbatim>\<open>status_label.config(text=status_text)\<close>, for the label of window \<open>r\<close>.\<close>

definition tk_label_config :: "nat \<Rightarrow> string \<Rightarrow> world \<Rightarrow> world outcome" where
  "tk_label_config r t w =
     (case lookup_surface w r of
        None \<Rightarrow> Raised TclError w
      | Some s \<Rightarrow> Returned (w\<lparr>surfaces := (surfaces w)[r := Some (s\<lparr>status_text := t\<rparr>)]\<rparr>))"

text \<open>\<^verbatim>\<open>root.destroy()\<close>.\<close>

definition tk_destroy :: "nat \<Rightarrow> world \<Rightarrow> world outcome" where
  "tk_destroy r w =
     (case lookup_surface w r of
        None \<Rightarrow> Raised TclError w
      | Some s \<Rightarrow> Returned (emit (Destroyed r) (w\<lparr>surfaces := (surfaces w)[r := None]\<rparr>)))"

text \<open>
  \<^verbatim>\<open>time.sleep(secs)\<close>. The argument is first converted to a whole number of
  nanoseconds in 64 bits, rounding away from zero: not a number raises
  \<^verbatim>\<open>ValueError\<close>, and a value that does not fit, as both infinities, raises
  \<^verbatim>\<open>OverflowError\<close>. Then a negative value raises \<^verbatim>\<open>ValueError\<close>
  (\<^verbatim>\<open>sleep length must be non-negative\<close>). Otherwise the call sleeps and returns.
\<close>

definition time_sleep :: "pyfloat \<Rightarrow> world \<Rightarrow> world outcome" where
  "time_sleep secs w =
     (case secs of
        NaN \<Rightarrow> Raised ValueError w
      | PosInf \<Rightarrow> Raised OverflowError w
      | NegInf \<Rightarrow> Raised OverflowError w
      | Finite x \<Rightarrow>
          (let ns = (if 0 \<le> x then \<lceil>x * 10 ^ 9\<rceil> else \<lfloor>x * 10 ^ 9\<rfloor>)
           in if ns < - (2 ^ 63) \<or> 2 ^ 63 \<le> ns then Raised OverflowError w
              else if ns < 0 then Raised ValueError w
              else Returned (emit (Slept secs) w)))"

subsection \<open>\<^verbatim>\<open>class SplashScreen\<close>\<close>

text \<open>
  The attributes of the object. \<^verbatim>\<open>root\<close> and the three widget attributes are
  \<^verbatim>\<open>None\<close> or refer to a window (for a widget: the window it was built in). The
  attribute \<^verbatim>\<open>root\<close> is \<open>root_window\<close> here, \<open>root\<close> being the n-th root of analysis.
\<close>

record splash_screen =
  duration :: pyfloat
  root_window :: "nat option"
  progress_var :: "nat option"
  progress_bar :: "nat option"
  status_label :: "nat option"

text \<open>\<^verbatim>\<open>__init__\<close>.\<close>

definition splash_init :: "pyfloat \<Rightarrow> splash_screen" where
  "splash_init d =
     \<lparr>duration = d, root_window = None, progress_var = None, progress_bar = None,
      status_label = None\<rparr>"

text \<open>
  \<^verbatim>\<open>create_splash\<close>: \<^verbatim>\<open>tk.Tk()\<close> makes a new window whatever the attributes hold; it is
  500 by 500 and centred, its variable starts at 0 and its status label reads
  \<^verbatim>\<open>Initializing...\<close>. Making a window is taken to succeed.
\<close>

definition create_splash :: "splash_screen \<times> world \<Rightarrow> splash_screen \<times> world" where
  "create_splash sw =
     (case sw of (self, w) \<Rightarrow>
        let r = length (surfaces w);
            width = 500;
            height = 500;
            x = (screen_width w - width) div 2;
            y = (screen_height w - height) div 2;
            s = \<lparr>geometry = (width, height, x, y), progress_value = 0,
                 status_text = ''Initializing...''\<rparr>
        in (self\<lparr>root_window := Some r, progress_var := Some r, progress_bar := Some r,
                  status_label := Some r\<rparr>,
            w\<lparr>surfaces := surfaces w @ [Some s]\<rparr>))"

text \<open>
  \<^verbatim>\<open>update_progress\<close>. The guard tests the three attributes; the body runs inside
  \<^verbatim>\<open>try\<close>, and \<^verbatim>\<open>except Exception\<close> turns whatever it raises into a printed line, so
  the method itself never raises.
\<close>

definition update_progress_body :: "nat \<Rightarrow> nat \<Rightarrow> nat \<Rightarrow> int \<Rightarrow> string \<Rightarrow> world \<Rightarrow> world outcome" where
  "update_progress_body var label r v status w =
     and_then (and_then (and_then (tk_var_set var v w)
       (\<lambda>w. if status \<noteq> []
            then and_then (tk_label_config label status w) (tk_update label)
            else Returned w))
       (tk_update r))
       (tk_update r)"

definition update_progress :: "splash_screen \<Rightarrow> int \<Rightarrow> string \<Rightarrow> world \<Rightarrow> world" where
  "update_progress self v status w =
     (case (progress_var self, status_label self, root_window self) of
        (Some var, Some label, Some r) \<Rightarrow>
          (case update_progress_body var label r v status w of
             Returned w' \<Rightarrow> w'
           | Raised e w' \<Rightarrow> emit (Printed_error e) w')
      | _ \<Rightarrow> w)"

text \<open>\<^verbatim>\<open>close_splash\<close>.\<close>

definition close_splash :: "splash_screen \<times> world \<Rightarrow> (splash_screen \<times> world) outcome" where
  "close_splash sw =
     (case sw of (self, w) \<Rightarrow>
        (case root_window self of
           None \<Rightarrow> Returned (self, w)
         | Some r \<Rightarrow>
             (case tk_destroy r w of
                Raised e w' \<Rightarrow> Raised e (self, w')
              | Returned w' \<Rightarrow> Returned (self\<lparr>root_window := None\<rparr>, w'))))"

text \<open>The script of \<^verbatim>\<open>show_splash\<close>.\<close>

definition steps :: "(int \<times> string) list" where
  "steps =
     [(10, ''Loading modules...''),
      (25, ''Initializing camera...''),
      (40, ''Loading AI models...''),
      (60, ''Setting up eye tracking...''),
      (80, ''Configuring interface...''),
      (95, ''Finalizing setup...''),
      (100, ''Ready!'')]"

text \<open>The \<^verbatim>\<open>for\<close> loop over the steps.\<close>

fun animate :: "splash_screen \<Rightarrow> pyfloat \<Rightarrow> (int \<times> string) list \<Rightarrow> world \<Rightarrow> world outcome" where
  "animate self step_duration [] w = Returned w"
| "animate self step_duration ((progress, status) # rest) w =
     and_then
       (time_sleep step_duration
          (update_progress self progress status (emit (Printed_updating progress status) w)))
       (animate self step_duration rest)"

text \<open>Lifting a step on the world to the pair of object and world.\<close>

fun in_world :: "(world \<Rightarrow> world outcome) \<Rightarrow> splash_screen \<times> world \<Rightarrow> (splash_screen \<times> world) outcome" where
  "in_world f (self, w) =
     (case f w of Returned w' \<Rightarrow> Returned (self, w') | Raised e w' \<Rightarrow> Raised e (self, w'))"

text \<open>
  \<^verbatim>\<open>if callback: callback()\<close>; \<open>callback\<close> is \<^const>\<open>None\<close> for a call without one. Of what
  the callback does, only that it is called is kept.
\<close>

fun call_back :: "callback option \<Rightarrow> world \<Rightarrow> world outcome" where
  "call_back None w = Returned w"
| "call_back (Some c) w =
     (if truthy c then Returned (emit (Called_back (callback_id c)) w) else Returned w)"

text \<open>
  \<^verbatim>\<open>show_splash\<close>. After the guarded \<^verbatim>\<open>create_splash\<close> the attribute \<^verbatim>\<open>root\<close> is read
  for \<^verbatim>\<open>deiconify\<close> and \<^verbatim>\<open>update\<close>.
\<close>

definition show_splash :: "callback option \<Rightarrow> splash_screen \<times> world \<Rightarrow> (splash_screen \<times> world) outcome" where
  "show_splash callback sw =
     (let sw1 = (if root_window (fst sw) = None then create_splash sw else sw);
          self = fst sw1;
          step_duration = truediv (duration self) (length steps)
      in case root_window self of
           None \<Rightarrow> Raised AttributeError sw1
         | Some r \<Rightarrow>
             and_then (and_then (and_then (and_then (and_then
               (in_world (tk_deiconify r) sw1)
               (in_world (tk_update r)))
               (in_world (animate self step_duration steps)))
               (in_world (time_sleep (Finite 0.5))))
               close_splash)
               (in_world (call_back callback)))"

text \<open>\<^verbatim>\<open>show_splash_screen\<close>: a new object, and its run.\<close>

definition show_splash_screen :: "pyfloat \<Rightarrow> callback option \<Rightarrow> world \<Rightarrow> (splash_screen \<times> world) outcome" where
  "show_splash_screen d callback w = show_splash callback (splash_init d, w)"

section \<open>Invariants and observations\<close>

text \<open>
  The invariant of the form: while it is open the dictionary is as it was built, and
  whenever \<^verbatim>\<open>cancelled\<close> is set the contact is empty.
\<close>

definition result_inv :: "dialog \<Rightarrow> bool" where
  "result_inv d \<longleftrightarrow>
     (\<not> destroyed d \<longrightarrow> result d = result dialog_init) \<and>
     (cancelled (result d) \<longrightarrow> contact (result d) = [])"

text \<open>
  The class invariant of \<^verbatim>\<open>SplashScreen\<close>: when \<^verbatim>\<open>root\<close> is set, it refers to a window
  that exists, and the variable and the status label are those of that window. It
  holds after \<^verbatim>\<open>__init__\<close> and every method keeps it, as shown below.
\<close>

definition consistent :: "splash_screen \<times> world \<Rightarrow> bool" where
  "consistent sw =
     (case root_window (fst sw) of
        None \<Rightarrow> True
      | Some r \<Rightarrow> progress_var (fst sw) = Some r \<and> status_label (fst sw) = Some r
                  \<and> lookup_surface (snd sw) r \<noteq> None)"

text \<open>
  Which of the windows created so far exist.
\<close>

definition liveness :: "world \<Rightarrow> bool list" where
  "liveness w = map (\<lambda>x. x \<noteq> None) (surfaces w)"

text \<open>
  Readings of a list of effects: the arguments of the \<^verbatim>\<open>Updating progress\<close> lines, what
  the redraws of window \<open>r\<close> showed, and the callbacks called.
\<close>

fun reported :: "effect list \<Rightarrow> (int \<times> string) list" where
  "reported [] = []"
| "reported (Printed_updating p t # es) = (p, t) # reported es"
| "reported (e # es) = reported es"

fun shown :: "nat \<Rightarrow> effect list \<Rightarrow> (int \<times> string) list" where
  "shown r [] = []"
| "shown r (Drawn r' p t # es) = (if r' = r then (p, t) # shown r es else shown r es)"
| "shown r (e # es) = shown r es"

fun callbacks :: "effect list \<Rightarrow> nat list" where
  "callbacks [] = []"
| "callbacks (Called_back c # es) = c # callbacks es"
| "callbacks (e # es) = callbacks es"

text \<open>
  Whether a call raised, and what.
\<close>

fun raised :: "'s outcome \<Rightarrow> exn option" where
  "raised (Returned s) = None"
| "raised (Raised e s) = Some e"

text \<open>
  The effects of one turn of the loop on window \<open>r\<close>, when the window exists and the
  label is not empty, and the effects of \<^verbatim>\<open>if callback: callback()\<close>.
\<close>

definition step_effects :: "nat \<Rightarrow> pyfloat \<Rightarrow> int \<times> string \<Rightarrow> effect list" where
  "step_effects r secs st =
     [Printed_updating (fst st) (snd st), Drawn r (fst st) (snd st), Drawn r (fst st) (snd st),
      Drawn r (fst st) (snd st), Slept secs]"

definition callback_effects :: "callback option \<Rightarrow> effect list" where
  "callback_effects callback =
     (case callback of
        None \<Rightarrow> []
      | Some c \<Rightarrow> if truthy c then [Called_back (callback_id c)] else [])"

text \<open>
  The arguments with which \<^verbatim>\<open>time.sleep\<close> sleeps and returns: finite, not negative,
  and below \<open>2 ^ 63\<close> nanoseconds (about 9.22e9 seconds) once rounded up.
\<close>

definition sleep_accepts :: "pyfloat \<Rightarrow> bool" where
  "sleep_accepts secs =
     (case secs of Finite x \<Rightarrow> 0 \<le> x \<and> \<lceil>x * 10 ^ 9\<rceil> < 2 ^ 63 | _ \<Rightarrow> False)"

text \<open>
  A world to run examples in: a screen of 1920 by 1080, no window yet and nothing
  done.
\<close>

definition world0 :: world where
  "world0 = \<lparr>screen_width = 1920, screen_height = 1080, surfaces = [], effects = []\<rparr>"

section \<open>Properties of the dialog\<close>

lemma dispatch_destroyed: "destroyed d \<Longrightarrow> dispatch d es = d"
  by (cases es) simp_all

lemma dispatch_append: "dispatch d (pre @ es) = dispatch (dispatch d pre) es"
  by (induction pre arbitrary: d) (simp_all add: dispatch_destroyed)

lemma dispatch_closing:
  assumes "\<not> destroyed (dispatch d pre)" and "destroyed (handle_event (dispatch d pre) e)"
  shows "mainloop d (pre @ e # post) = Some (handle_event (dispatch d pre) e)"
  using assms by (simp add: mainloop_def dispatch_append dispatch_destroyed)

lemma ok_proceed_accepts:
  "10 \<le> length (strip (phone_entry d)) \<Longrightarrow>
   ok_proceed d = d\<lparr>result := \<lparr>contact = strip (phone_entry d),
                                whatsapp_preference = whatsapp_var d,
                                cancelled = False\<rparr>,
                    destroyed := True\<rparr>"
  by (simp add: ok_proceed_def Let_def)

lemma ok_proceed_rejects:
  "length (strip (phone_entry d)) < 10 \<Longrightarrow>
   ok_proceed d = d\<lparr>errors_shown := errors_shown d @
      [(''Invalid Contact'', ''Please enter a valid phone number with at least 10 digits.'')]\<rparr>"
  by (simp add: ok_proceed_def Let_def)

lemma result_inv_init: "result_inv dialog_init"
  by (simp add: result_inv_def dialog_init_def)

lemma result_inv_handle:
  "result_inv d \<Longrightarrow> \<not> destroyed d \<Longrightarrow> result_inv (handle_event d e)"
  by (cases e)
     (auto simp: result_inv_def ok_proceed_def cancel_close_def on_closing_def dialog_init_def
                 Let_def)

lemma result_inv_dispatch: "result_inv d \<Longrightarrow> result_inv (dispatch d es)"
  by (induction es arbitrary: d) (simp_all add: result_inv_handle)

text \<open>
  Claim C5. In every state that the form reaches from its initial state, whatever the
  user does, \<^verbatim>\<open>cancelled\<close> being set implies that \<^verbatim>\<open>contact\<close> is the empty string; so
  it is in the state with which the event loop returns.
\<close>

theorem cancelled_implies_no_contact:
  "(cancelled (result (dispatch dialog_init es)) \<longrightarrow> contact (result (dispatch dialog_init es)) = [])
   \<and> (\<forall>d. mainloop dialog_init es = Some d \<longrightarrow> cancelled (result d) \<longrightarrow> contact (result d) = [])"
  using result_inv_dispatch [OF result_inv_init, of es]
  by (auto simp: result_inv_def mainloop_def Let_def split: if_splits)

theorem cancelled_implies_no_contact_witness:
  "cancelled (result (dispatch dialog_init [EditEntry ''+91 98765'', ClickOK, CloseWindow]))
   \<and> contact (result (dispatch dialog_init [EditEntry ''+91 98765'', ClickOK, CloseWindow])) = []
   \<and> mainloop dialog_init [EditEntry ''+91 98765'', ClickOK, CloseWindow]
       = Some (dispatch dialog_init [EditEntry ''+91 98765'', ClickOK, CloseWindow])"
  using cancelled_implies_no_contact [of "[EditEntry ''+91 98765'', ClickOK, CloseWindow]"]
  by (simp add: mainloop_def dialog_init_def ok_proceed_def on_closing_def strip_def isspace_def)


text \<open>
  Claim C1. Whatever the user did while the form stayed open (\<open>pre\<close>), pressing
  Cancel or closing the window makes the call return \<^verbatim>\<open>None\<close>, and pressing OK on an
  input whose stripped text has at least 10 characters makes it return the
  dictionary; what the user does afterwards (\<open>post\<close>) changes nothing. The call never
  returns a dictionary in which \<^verbatim>\<open>cancelled\<close> is set.
\<close>

theorem dialog_return_contract:
  assumes "\<not> destroyed (dispatch dialog_init pre)"
  shows "show_emergency_contact_dialog (pre @ ClickCancel # post) = Some None
       \<and> show_emergency_contact_dialog (pre @ CloseWindow # post) = Some None
       \<and> (10 \<le> length (strip (phone_entry (dispatch dialog_init pre))) \<longrightarrow>
            show_emergency_contact_dialog (pre @ ClickOK # post) =
              Some (Some \<lparr>contact = strip (phone_entry (dispatch dialog_init pre)),
                          whatsapp_preference = whatsapp_var (dispatch dialog_init pre),
                          cancelled = False\<rparr>))
       \<and> (\<forall>es r. show_emergency_contact_dialog es = Some (Some r) \<longrightarrow> \<not> cancelled r)"
proof -
  let ?d = "dispatch dialog_init pre"
  have cancel: "mainloop dialog_init (pre @ ClickCancel # post) = Some (cancel_close ?d)"
    using assms dispatch_closing [of dialog_init pre ClickCancel post]
    by (simp add: cancel_close_def)
  have close: "mainloop dialog_init (pre @ CloseWindow # post) = Some (on_closing ?d)"
    using assms dispatch_closing [of dialog_init pre CloseWindow post]
    by (simp add: on_closing_def)
  have ok: "mainloop dialog_init (pre @ ClickOK # post) = Some (ok_proceed ?d)"
    if "10 \<le> length (strip (phone_entry ?d))"
    using assms that dispatch_closing [of dialog_init pre ClickOK post]
    by (simp add: ok_proceed_accepts)
  have never: "\<not> cancelled r" if "show_emergency_contact_dialog es = Some (Some r)" for es r
    using that
    by (auto simp: show_emergency_contact_dialog_def split: option.splits if_splits)
  show ?thesis
    using cancel close ok never
    by (simp add: show_emergency_contact_dialog_def cancel_close_def on_closing_def
                  ok_proceed_accepts)
qed



theorem dialog_return_contract_witness:
  "\<not> destroyed (dispatch dialog_init
        [EditEntry ''12345'', ClickOK, EditEntry ''+91 9876543210'', ToggleCheck])
   \<and> show_emergency_contact_dialog
        ([EditEntry ''12345'', ClickOK, EditEntry ''+91 9876543210'', ToggleCheck]
         @ ClickCancel # [ClickOK]) = Some None
   \<and> show_emergency_contact_dialog
        ([EditEntry ''12345'', ClickOK, EditEntry ''+91 9876543210'', ToggleCheck]
         @ CloseWindow # [ClickOK]) = Some None
   \<and> 10 \<le> length (strip (phone_entry (dispatch dialog_init
        [EditEntry ''12345'', ClickOK, EditEntry ''+91 9876543210'', ToggleCheck])))
   \<and> show_emergency_contact_dialog
        ([EditEntry ''12345'', ClickOK, EditEntry ''+91 9876543210'', ToggleCheck]
         @ ClickOK # [ClickOK]) =
       Some (Some \<lparr>contact = ''+91 9876543210'', whatsapp_preference = True,
                   cancelled = False\<rparr>)"
  using dialog_return_contract
          [of "[EditEntry ''12345'', ClickOK, EditEntry ''+91 9876543210'', ToggleCheck]"
              "[ClickOK]"]
  by (simp add: dialog_init_def ok_proceed_def strip_def isspace_def)

text \<open>
  Claim C3. When OK is pressed on a form whose entry holds \<open>t\<close>, with at least 10
  characters after stripping, and whose checkbox is \<open>b\<close>, the dictionary becomes
  \<^verbatim>\<open>contact\<close> = the stripped text, \<^verbatim>\<open>whatsapp_preference\<close> = \<open>b\<close>, \<^verbatim>\<open>cancelled\<close> = false
  and the form is destroyed; a session in which the user types \<open>t\<close>, sets the
  checkbox to \<open>b\<close> and presses OK returns exactly that dictionary.
\<close>

theorem ok_proceed_valid_result:
  assumes "10 \<le> length (strip t)"
  shows "result (ok_proceed (d\<lparr>phone_entry := t, whatsapp_var := b\<rparr>)) =
           \<lparr>contact = strip t, whatsapp_preference = b, cancelled = False\<rparr>
       \<and> destroyed (ok_proceed (d\<lparr>phone_entry := t, whatsapp_var := b\<rparr>))
       \<and> show_emergency_contact_dialog
            (EditEntry t # (if b then [ToggleCheck] else []) @ [ClickOK]) =
           Some (Some \<lparr>contact = strip t, whatsapp_preference = b, cancelled = False\<rparr>)"
proof -
  have accepted: "ok_proceed (d'\<lparr>phone_entry := t, whatsapp_var := b\<rparr>) =
      d'\<lparr>phone_entry := t, whatsapp_var := b,
         result := \<lparr>contact = strip t, whatsapp_preference = b, cancelled = False\<rparr>,
         destroyed := True\<rparr>" for d'
    using assms ok_proceed_accepts [of "d'\<lparr>phone_entry := t, whatsapp_var := b\<rparr>"] by simp
  have session: "show_emergency_contact_dialog
        (EditEntry t # (if b then [ToggleCheck] else []) @ [ClickOK]) =
      Some (Some \<lparr>contact = strip t, whatsapp_preference = b, cancelled = False\<rparr>)"
  proof (cases b)
    case True
    then show ?thesis
      using accepted [of dialog_init]
      by (simp add: show_emergency_contact_dialog_def mainloop_def dialog_init_def)
  next
    case False
    then show ?thesis
      using accepted [of dialog_init]
      by (simp add: show_emergency_contact_dialog_def mainloop_def dialog_init_def)
  qed
  show ?thesis
    using accepted [of d] session by simp
qed

theorem ok_proceed_valid_result_witness:
  "10 \<le> length (strip ''+91 9876543210'')
   \<and> result (ok_proceed (dialog_init\<lparr>phone_entry := ''+91 9876543210'', whatsapp_var := True\<rparr>)) =
        \<lparr>contact = ''+91 9876543210'', whatsapp_preference = True, cancelled = False\<rparr>
   \<and> destroyed (ok_proceed (dialog_init\<lparr>phone_entry := ''+91 9876543210'', whatsapp_var := True\<rparr>))
   \<and> show_emergency_contact_dialog [EditEntry ''+91 9876543210'', ToggleCheck, ClickOK] =
        Some (Some \<lparr>contact = ''+91 9876543210'', whatsapp_preference = True,
                    cancelled = False\<rparr>)"
  using ok_proceed_valid_result [where t = "''+91 9876543210''" and d = dialog_init and b = True]
  by (simp add: strip_def isspace_def)

lemma strip_unchanged:
  assumes "t \<noteq> []" and "\<not> isspace (hd t)" and "\<not> isspace (last t)"
  shows "strip t = t"
proof -
  have "dropWhile isspace t = t"
    using assms by (simp add: dropWhile_eq_self_iff)
  moreover have "dropWhile isspace (rev t) = rev t"
    using assms by (simp add: dropWhile_eq_self_iff hd_rev)
  ultimately show ?thesis by (simp add: strip_def)
qed

text \<open>
  Claim C4. When OK is pressed on a form whose stripped entry text has fewer than 10
  characters, the error notification is shown and nothing else changes, whatever the
  checkbox and the dictionary hold: the form stays open with its entry, checkbox and
  dictionary as before, it goes on taking events, the event loop does not return on
  this event, and the call has returned nothing to its caller.
\<close>

theorem ok_proceed_too_short:
  assumes "length (strip (phone_entry d)) < 10"
  shows "ok_proceed d = d\<lparr>errors_shown := errors_shown d @
            [(''Invalid Contact'',
              ''Please enter a valid phone number with at least 10 digits.'')]\<rparr>
       \<and> ok_proceed (d\<lparr>whatsapp_var := b, result := r\<rparr>) =
           d\<lparr>whatsapp_var := b, result := r, errors_shown := errors_shown d @
            [(''Invalid Contact'',
              ''Please enter a valid phone number with at least 10 digits.'')]\<rparr>
       \<and> (\<not> destroyed d \<longrightarrow>
            \<not> destroyed (ok_proceed d)
          \<and> mainloop d [ClickOK] = None
          \<and> dispatch d (ClickOK # es) = dispatch (ok_proceed d) es)
       \<and> (\<not> destroyed d \<and> d = dispatch dialog_init pre \<longrightarrow>
            show_emergency_contact_dialog (pre @ [ClickOK]) = None)"
proof -
  have rejected: "ok_proceed d = d\<lparr>errors_shown := errors_shown d @
      [(''Invalid Contact'', ''Please enter a valid phone number with at least 10 digits.'')]\<rparr>"
    using assms by (rule ok_proceed_rejects)
  have other_fields: "ok_proceed (d\<lparr>whatsapp_var := b, result := r\<rparr>) =
      d\<lparr>whatsapp_var := b, result := r, errors_shown := errors_shown d @
      [(''Invalid Contact'', ''Please enter a valid phone number with at least 10 digits.'')]\<rparr>"
    using assms ok_proceed_rejects [of "d\<lparr>whatsapp_var := b, result := r\<rparr>"] by simp
  have stays: "\<not> destroyed (ok_proceed d) \<and> mainloop d [ClickOK] = None
      \<and> dispatch d (ClickOK # es) = dispatch (ok_proceed d) es" if "\<not> destroyed d"
    using that rejected by (simp add: mainloop_def)
  have session: "show_emergency_contact_dialog (pre @ [ClickOK]) = None"
    if "\<not> destroyed d" and "d = dispatch dialog_init pre"
    using that rejected
    by (simp add: show_emergency_contact_dialog_def mainloop_def dispatch_append)
  show ?thesis
    using rejected other_fields stays session by blast
qed

theorem ok_proceed_too_short_witness:
  "length (strip (phone_entry (dispatch dialog_init [EditEntry ''12345'']))) < 10
   \<and> \<not> destroyed (dispatch dialog_init [EditEntry ''12345''])
   \<and> ok_proceed (dispatch dialog_init [EditEntry ''12345'']) =
       \<lparr>phone_entry = ''12345'', whatsapp_var = False,
        result = \<lparr>contact = [], whatsapp_preference = False, cancelled = True\<rparr>,
        destroyed = False,
        errors_shown = [(''Invalid Contact'',
              ''Please enter a valid phone number with at least 10 digits.'')]\<rparr>
   \<and> mainloop (dispatch dialog_init [EditEntry ''12345'']) [ClickOK] = None
   \<and> show_emergency_contact_dialog ([EditEntry ''12345''] @ [ClickOK]) = None"
  using ok_proceed_too_short [where d = "dispatch dialog_init [EditEntry ''12345'']"
          and pre = "[EditEntry ''12345'']" and es = "[]"]
  by (simp add: dialog_init_def strip_def isspace_def)

text \<open>
  Claim C10. The test of \<^verbatim>\<open>ok_proceed\<close> counts characters, whatever they are: any text
  of at least 10 characters that neither begins nor ends with whitespace is accepted
  and returned as the contact; no digit is needed.
\<close>

theorem validation_counts_every_character:
  assumes "10 \<le> length t" and "\<not> isspace (hd t)" and "\<not> isspace (last t)"
  shows "show_emergency_contact_dialog [EditEntry t, ClickOK] =
           Some (Some \<lparr>contact = t, whatsapp_preference = False, cancelled = False\<rparr>)"
proof -
  have "t \<noteq> []" using assms(1) by auto
  then have "strip t = t" using assms(2,3) by (rule strip_unchanged)
  then have "ok_proceed (dialog_init\<lparr>phone_entry := t\<rparr>) =
      dialog_init\<lparr>phone_entry := t,
        result := \<lparr>contact = t, whatsapp_preference = False, cancelled = False\<rparr>,
        destroyed := True\<rparr>"
    using assms(1) ok_proceed_accepts [of "dialog_init\<lparr>phone_entry := t\<rparr>"]
    by (simp add: dialog_init_def)
  then show ?thesis
    by (simp add: show_emergency_contact_dialog_def mainloop_def dialog_init_def)
qed

theorem validation_counts_every_character_witness:
  "10 \<le> length ''abcdefghij'' \<and> \<not> isspace (hd ''abcdefghij'') \<and> \<not> isspace (last ''abcdefghij'')
   \<and> show_emergency_contact_dialog [EditEntry ''abcdefghij'', ClickOK] =
        Some (Some \<lparr>contact = ''abcdefghij'', whatsapp_preference = False, cancelled = False\<rparr>)"
  using validation_counts_every_character [of "''abcdefghij''"]
  by (simp add: isspace_def)

section \<open>Properties of the splash screen\<close>

lemma lookup_surface_Some:
  "lookup_surface w r = Some s \<longleftrightarrow> r < length (surfaces w) \<and> surfaces w ! r = Some s"
  by (simp add: lookup_surface_def)

lemma lookup_surface_emit [simp]: "lookup_surface (emit e w) r = lookup_surface w r"
  by (simp add: lookup_surface_def emit_def)

lemma time_sleep_accepted:
  assumes "sleep_accepts secs"
  shows "time_sleep secs w = Returned (emit (Slept secs) w)"
proof -
  from assms obtain x where x: "secs = Finite x" "0 \<le> x" "\<lceil>x * 10 ^ 9\<rceil> < 2 ^ 63"
    by (cases secs) (simp_all add: sleep_accepts_def)
  from x(2) have "0 \<le> \<lceil>x * 10 ^ 9\<rceil>"
    by (simp add: zero_le_ceiling)
  with x show ?thesis
    by (simp add: time_sleep_def Let_def)
qed

lemma sleep_accepts_half: "sleep_accepts (Finite 0.5)"
  by (simp add: sleep_accepts_def)

lemma update_progress_live:
  assumes "progress_var self = Some r" and "status_label self = Some r"
      and "root_window self = Some r" and "lookup_surface w r = Some s" and "status \<noteq> []"
  shows "update_progress self v status w =
           w\<lparr>surfaces := (surfaces w)[r := Some (s\<lparr>progress_value := v, status_text := status\<rparr>)],
             effects := effects w @ [Drawn r v status, Drawn r v status, Drawn r v status]\<rparr>"
proof -
  from assms(4) have "r < length (surfaces w)" and "surfaces w ! r = Some s"
    by (simp_all add: lookup_surface_Some)
  then show ?thesis
    using assms(1,2,3,5)
    by (simp add: update_progress_def update_progress_body_def tk_var_set_def
                  tk_label_config_def tk_update_def lookup_surface_def emit_def)
qed

lemma animate_live:
  assumes "progress_var self = Some r" and "status_label self = Some r"
      and "root_window self = Some r" and "sleep_accepts secs"
      and "lookup_surface w r \<noteq> None" and "\<forall>st \<in> set sts. snd st \<noteq> []"
  shows "\<exists>w'. animate self secs sts w = Returned w'
             \<and> effects w' = effects w @ concat (map (step_effects r secs) sts)
             \<and> length (surfaces w') = length (surfaces w)
             \<and> lookup_surface w' r \<noteq> None"
  using assms(5,6)
proof (induction sts arbitrary: w)
  case Nil
  then show ?case by simp
next
  case (Cons st sts)
  obtain p t where st: "st = (p, t)" by (cases st)
  from Cons.prems obtain s where s: "lookup_surface w r = Some s" by auto
  let ?w1 = "emit (Printed_updating p t) w"
  have s1: "lookup_surface ?w1 r = Some s"
    using s by simp
  let ?w2 = "update_progress self p t ?w1"
  have t: "t \<noteq> []" using Cons.prems st by simp
  have w2: "?w2 = ?w1\<lparr>surfaces := (surfaces ?w1)[r := Some (s\<lparr>progress_value := p, status_text := t\<rparr>)],
             effects := effects ?w1 @ [Drawn r p t, Drawn r p t, Drawn r p t]\<rparr>"
    using assms(1-3) s1 t by (rule update_progress_live)
  let ?w3 = "emit (Slept secs) ?w2"
  from s have in_range: "r < length (surfaces w)"
    by (simp add: lookup_surface_Some)
  have live3: "lookup_surface ?w3 r \<noteq> None"
    unfolding w2 using in_range by (simp add: lookup_surface_def emit_def)
  have eff3: "effects ?w3 = effects w @ step_effects r secs st"
    unfolding w2 by (simp add: emit_def step_effects_def st)
  have len3: "length (surfaces ?w3) = length (surfaces w)"
    unfolding w2 by (simp add: emit_def)
  have step: "animate self secs (st # sts) w = animate self secs sts ?w3"
    using assms(4) by (simp add: st time_sleep_accepted)
  from Cons.IH [OF live3] Cons.prems obtain w' where
    "animate self secs sts ?w3 = Returned w'"
    "effects w' = effects ?w3 @ concat (map (step_effects r secs) sts)"
    "length (surfaces w') = length (surfaces ?w3)"
    "lookup_surface w' r \<noteq> None"
    by auto
  then show ?case
    using step eff3 len3 by simp
qed

lemma steps_labelled: "\<forall>st \<in> set steps. snd st \<noteq> []"
  by (simp add: steps_def)

lemma length_steps: "length steps = 7"
  by (simp add: steps_def)

lemma show_splash_existing:
  assumes "progress_var self = Some r" and "status_label self = Some r"
      and "root_window self = Some r" and "lookup_surface w r = Some s"
      and "sleep_accepts (truediv (duration self) 7)"
  shows "\<exists>w'. show_splash callback (self, w) = Returned (self\<lparr>root_window := None\<rparr>, w')
             \<and> effects w' = effects w
                  @ Drawn r (progress_value s) (status_text s)
                  # concat (map (step_effects r (truediv (duration self) 7)) steps)
                  @ [Slept (Finite 0.5), Destroyed r] @ callback_effects callback
             \<and> length (surfaces w') = length (surfaces w)
             \<and> lookup_surface w' r = None"
proof -
  let ?w1 = "emit (Drawn r (progress_value s) (status_text s)) w"
  have live1: "lookup_surface ?w1 r \<noteq> None"
    using assms(4) by simp
  note secs = assms(5)
  from animate_live [OF assms(1-3) secs live1 steps_labelled]
  obtain w2 where w2: "animate self (truediv (duration self) 7) steps ?w1 = Returned w2"
      "effects w2 = effects ?w1 @ concat (map (step_effects r (truediv (duration self) 7)) steps)"
      "length (surfaces w2) = length (surfaces ?w1)"
      "lookup_surface w2 r \<noteq> None"
    by blast
  let ?w3 = "emit (Slept (Finite 0.5)) w2"
  from w2(4) obtain s2 where s2: "lookup_surface ?w3 r = Some s2"
    by auto
  let ?w4 = "emit (Destroyed r) (?w3\<lparr>surfaces := (surfaces ?w3)[r := None]\<rparr>)"
  have closed: "close_splash (self, ?w3) = Returned (self\<lparr>root_window := None\<rparr>, ?w4)"
    using assms(3) s2 by (simp add: close_splash_def tk_destroy_def)
  let ?w5 = "?w4\<lparr>effects := effects ?w4 @ callback_effects callback\<rparr>"
  have called: "in_world (call_back callback) (self\<lparr>root_window := None\<rparr>, ?w4)
      = Returned (self\<lparr>root_window := None\<rparr>, ?w5)"
    by (cases callback) (simp_all add: callback_effects_def emit_def)
  have held: "time_sleep (Finite 0.5) w2 = Returned ?w3"
    by (rule time_sleep_accepted [OF sleep_accepts_half])
  have run: "show_splash callback (self, w) = Returned (self\<lparr>root_window := None\<rparr>, ?w5)"
    using assms(3,4) w2(1) held closed called
    by (simp add: show_splash_def Let_def length_steps tk_deiconify_def tk_update_def)
  have eff: "effects ?w5 = effects w
      @ Drawn r (progress_value s) (status_text s)
      # concat (map (step_effects r (truediv (duration self) 7)) steps)
      @ [Slept (Finite 0.5), Destroyed r] @ callback_effects callback"
    using w2(2) by (simp add: emit_def)
  have len: "length (surfaces ?w5) = length (surfaces w)"
    using w2(3) by (simp add: emit_def)
  have gone: "lookup_surface ?w5 r = None"
    by (simp add: lookup_surface_def emit_def)
  show ?thesis
    using run eff len gone by blast
qed

lemma show_splash_creates:
  "root_window self = None \<Longrightarrow>
   show_splash callback (self, w) = show_splash callback (create_splash (self, w))"
  by (simp add: show_splash_def create_splash_def Let_def)

lemma show_splash_fresh:
  assumes "root_window self = None" and "sleep_accepts (truediv (duration self) 7)"
  shows "\<exists>self' w'. show_splash callback (self, w) = Returned (self', w')
             \<and> root_window self' = None
             \<and> effects w' = effects w
                  @ Drawn (length (surfaces w)) 0 ''Initializing...''
                  # concat (map (step_effects (length (surfaces w)) (truediv (duration self) 7)) steps)
                  @ [Slept (Finite 0.5), Destroyed (length (surfaces w))] @ callback_effects callback
             \<and> length (surfaces w') = Suc (length (surfaces w))
             \<and> lookup_surface w' (length (surfaces w)) = None"
proof -
  obtain self1 w1 where created: "create_splash (self, w) = (self1, w1)"
    by (cases "create_splash (self, w)")
  let ?r = "length (surfaces w)"
  from created have attrs: "progress_var self1 = Some ?r" "status_label self1 = Some ?r"
      "root_window self1 = Some ?r" "duration self1 = duration self"
    by (auto simp: create_splash_def Let_def)
  from created have w1: "effects w1 = effects w" "length (surfaces w1) = Suc (length (surfaces w))"
    by (auto simp: create_splash_def Let_def)
  from created have live: "lookup_surface w1 ?r =
      Some \<lparr>geometry = (500, 500, (screen_width w - 500) div 2, (screen_height w - 500) div 2),
            progress_value = 0, status_text = ''Initializing...''\<rparr>"
    by (auto simp: create_splash_def Let_def lookup_surface_def)
  have nonneg: "sleep_accepts (truediv (duration self1) 7)"
    using assms(2) attrs(4) by simp
  from show_splash_existing [OF attrs(1-3) live nonneg, of callback]
  obtain w' where "show_splash callback (self1, w1) = Returned (self1\<lparr>root_window := None\<rparr>, w')"
      "effects w' = effects w1
         @ Drawn ?r 0 ''Initializing...''
         # concat (map (step_effects ?r (truediv (duration self1) 7)) steps)
         @ [Slept (Finite 0.5), Destroyed ?r] @ callback_effects callback"
      "length (surfaces w') = length (surfaces w1)"
      "lookup_surface w' ?r = None"
    by auto
  then show ?thesis
    using assms(1) created attrs(4) w1 by (simp add: show_splash_creates)
qed

lemmas run_defs =
  show_splash_screen_def show_splash_def splash_init_def create_splash_def close_splash_def
  update_progress_def update_progress_body_def tk_deiconify_def tk_update_def tk_var_set_def
  tk_label_config_def tk_destroy_def time_sleep_def lookup_surface_def emit_def steps_def
  world0_def Let_def

subsection \<open>The scripted run\<close>

text \<open>
  When \<^verbatim>\<open>time.sleep\<close> does not accept the seventh part of the duration, the run of a
  new splash screen raises in its first sleep: one step has been printed and shown,
  and the window is still there.
\<close>

lemma time_sleep_refuses:
  assumes "\<not> sleep_accepts secs"
  shows "\<exists>e. time_sleep secs w = Raised e w"
proof (cases secs)
  case (Finite x)
  show ?thesis
  proof (cases "0 \<le> x")
    case True
    with assms Finite have "2 ^ 63 \<le> \<lceil>x * 10 ^ 9\<rceil>"
      by (simp add: sleep_accepts_def)
    with True Finite show ?thesis
      by (simp add: time_sleep_def Let_def)
  next
    case False
    then have "x * 10 ^ 9 < 0"
      by (simp add: mult_less_0_iff)
    then have "\<lfloor>x * 10 ^ 9\<rfloor> < 0"
      by (simp add: floor_less_iff)
    with False Finite show ?thesis
      by (simp add: time_sleep_def Let_def)
  qed
qed (simp_all add: time_sleep_def)

lemma show_splash_screen_refused:
  assumes "\<not> sleep_accepts (truediv d 7)"
  shows "\<exists>e sw. show_splash_screen d callback w = Raised e sw
           \<and> effects (snd sw) = effects w
               @ [Drawn (length (surfaces w)) 0 ''Initializing...'',
                  Printed_updating 10 ''Loading modules...'',
                  Drawn (length (surfaces w)) 10 ''Loading modules...'',
                  Drawn (length (surfaces w)) 10 ''Loading modules...'',
                  Drawn (length (surfaces w)) 10 ''Loading modules...'']
           \<and> lookup_surface (snd sw) (length (surfaces w)) \<noteq> None"
proof -
  let ?r = "length (surfaces w)"
  obtain self1 w1 where created: "create_splash (splash_init d, w) = (self1, w1)"
    by (cases "create_splash (splash_init d, w)")
  then have attrs: "progress_var self1 = Some ?r" "status_label self1 = Some ?r"
      "root_window self1 = Some ?r" "duration self1 = d"
    by (auto simp: create_splash_def splash_init_def Let_def)
  from created have w1: "effects w1 = effects w"
    by (auto simp: create_splash_def Let_def)
  from created obtain s where live: "lookup_surface w1 ?r = Some s"
      and s: "progress_value s = 0" "status_text s = ''Initializing...''"
    by (auto simp: create_splash_def Let_def lookup_surface_def)
  let ?w2 = "emit (Printed_updating 10 ''Loading modules...'')
      (emit (Drawn ?r 0 ''Initializing...'') w1)"
  have live2: "lookup_surface ?w2 ?r = Some s"
    using live by simp
  let ?w3 = "update_progress self1 10 ''Loading modules...'' ?w2"
  have w3: "?w3 = ?w2\<lparr>surfaces := (surfaces ?w2)[?r := Some (s\<lparr>progress_value := 10,
        status_text := ''Loading modules...''\<rparr>)],
      effects := effects ?w2 @ [Drawn ?r 10 ''Loading modules...'',
        Drawn ?r 10 ''Loading modules...'', Drawn ?r 10 ''Loading modules...'']\<rparr>"
    using attrs(1-3) live2 by (rule update_progress_live) simp
  from time_sleep_refuses [OF assms, of ?w3]
  obtain e where e: "time_sleep (truediv d 7) ?w3 = Raised e ?w3" ..
  have stopped: "animate self1 secs steps (emit (Drawn ?r 0 ''Initializing...'') w1)
      = Raised e ?w3" if "time_sleep secs ?w3 = Raised e ?w3" for secs
    using that by (simp add: steps_def)
  have run: "show_splash_screen d callback w = Raised e (self1, ?w3)"
    using created attrs live s stopped [OF e]
    by (simp add: show_splash_screen_def show_splash_def splash_init_def Let_def length_steps
          tk_deiconify_def tk_update_def)
  have eff: "effects ?w3 = effects w
      @ [Drawn ?r 0 ''Initializing...'', Printed_updating 10 ''Loading modules...'',
         Drawn ?r 10 ''Loading modules...'', Drawn ?r 10 ''Loading modules...'',
         Drawn ?r 10 ''Loading modules...'']"
    unfolding w3 using w1 by (simp add: emit_def)
  from live have "?r < length (surfaces w1)"
    by (simp add: lookup_surface_Some)
  then have alive: "lookup_surface ?w3 ?r \<noteq> None"
    unfolding w3 by (simp add: lookup_surface_def emit_def)
  show ?thesis
    using run eff alive by auto
qed


text \<open>
  Claim C2, for the durations whose seventh part \<^verbatim>\<open>time.sleep\<close> accepts. The run of a
  new splash screen prints the seven steps 10, 25, 40, 60, 80, 95, 100 with their
  labels, in this order, and its window shows, one after the other, the initial state
  and then these seven states; neither depends on the duration.
\<close>

theorem scripted_sequence:
  assumes "sleep_accepts (truediv d 7)"
  shows "\<exists>self' w' new.
           show_splash_screen d callback w = Returned (self', w')
         \<and> effects w' = effects w @ new
         \<and> reported new =
             [(10, ''Loading modules...''), (25, ''Initializing camera...''),
              (40, ''Loading AI models...''), (60, ''Setting up eye tracking...''),
              (80, ''Configuring interface...''), (95, ''Finalizing setup...''),
              (100, ''Ready!'')]
         \<and> remdups_adj (shown (length (surfaces w)) new) =
             [(0, ''Initializing...''),
              (10, ''Loading modules...''), (25, ''Initializing camera...''),
              (40, ''Loading AI models...''), (60, ''Setting up eye tracking...''),
              (80, ''Configuring interface...''), (95, ''Finalizing setup...''),
              (100, ''Ready!'')]"
proof -
  let ?r = "length (surfaces w)"
  let ?new = "Drawn ?r 0 ''Initializing...''
      # concat (map (step_effects ?r (truediv d 7)) steps)
      @ [Slept (Finite 0.5), Destroyed ?r] @ callback_effects callback"
  have "root_window (splash_init d) = None"
      and "sleep_accepts (truediv (duration (splash_init d)) 7)"
    using assms by (simp_all add: splash_init_def)
  from show_splash_fresh [OF this, of callback w]
  obtain self' w' where run: "show_splash_screen d callback w = Returned (self', w')"
      and eff: "effects w' = effects w @ ?new"
    by (auto simp: show_splash_screen_def splash_init_def)
  have printed: "reported ?new = steps"
    by (cases callback) (simp_all add: steps_def step_effects_def callback_effects_def)
  have drawn: "remdups_adj (shown ?r ?new) = (0, ''Initializing...'') # steps"
    by (cases callback) (simp_all add: steps_def step_effects_def callback_effects_def)
  show ?thesis
    using run eff printed drawn unfolding steps_def by blast
qed

theorem scripted_sequence_witness:
  "sleep_accepts (truediv (Finite 0.7) 7)
   \<and> (\<exists>self' w' new.
           show_splash_screen (Finite 0.7) None world0 = Returned (self', w')
         \<and> effects w' = effects world0 @ new
         \<and> reported new =
             [(10, ''Loading modules...''), (25, ''Initializing camera...''),
              (40, ''Loading AI models...''), (60, ''Setting up eye tracking...''),
              (80, ''Configuring interface...''), (95, ''Finalizing setup...''),
              (100, ''Ready!'')]
         \<and> remdups_adj (shown (length (surfaces world0)) new) =
             [(0, ''Initializing...''),
              (10, ''Loading modules...''), (25, ''Initializing camera...''),
              (40, ''Loading AI models...''), (60, ''Setting up eye tracking...''),
              (80, ''Configuring interface...''), (95, ''Finalizing setup...''),
              (100, ''Ready!'')])"
  using scripted_sequence [of "Finite 0.7" None world0] by (simp add: sleep_accepts_def)

text \<open>
  Claim C2 as stated, for every duration, fails. With duration -7 the first
  \<^verbatim>\<open>time.sleep\<close> raises \<^verbatim>\<open>ValueError\<close>, with duration 100000000000 it raises
  \<^verbatim>\<open>OverflowError\<close>, and with a duration that is not a number it raises
  \<^verbatim>\<open>ValueError\<close>: each time after the first step only.
\<close>

theorem scripted_sequence_counterexample:
  "raised (show_splash_screen (Finite (- 7)) None world0) = Some ValueError
   \<and> reported (effects (snd (state_of (show_splash_screen (Finite (- 7)) None world0))))
       = [(10, ''Loading modules...'')]
   \<and> reported (effects (snd (state_of (show_splash_screen (Finite (- 7)) None world0)))) \<noteq> steps
   \<and> raised (show_splash_screen (Finite 100000000000) None world0) = Some OverflowError
   \<and> reported (effects (snd (state_of (show_splash_screen (Finite 100000000000) None world0))))
       = [(10, ''Loading modules...'')]
   \<and> raised (show_splash_screen NaN None world0) = Some ValueError
   \<and> reported (effects (snd (state_of (show_splash_screen NaN None world0))))
       = [(10, ''Loading modules...'')]"
  by (simp add: run_defs)

text \<open>
  Claim C7, for the durations whose seventh part \<^verbatim>\<open>time.sleep\<close> accepts and for
  callbacks that count as true. The run of a new splash screen ends with the step
  100, its sleep, the sleep of 0.5 seconds, the destruction of the window and then,
  if a callback was given and counts as true, its call; the callback is not called
  before, so it is called once, and never when none was given.
\<close>

theorem completion_order:
  assumes "sleep_accepts (truediv d 7)"
  shows "\<exists>self' w' before.
           show_splash_screen d callback w = Returned (self', w')
         \<and> effects w' = effects w @ before
             @ [Printed_updating 100 ''Ready!'',
                Drawn (length (surfaces w)) 100 ''Ready!'',
                Drawn (length (surfaces w)) 100 ''Ready!'',
                Drawn (length (surfaces w)) 100 ''Ready!'',
                Slept (truediv d 7),
                Slept (Finite 0.5),
                Destroyed (length (surfaces w))]
             @ (case callback of
                  None \<Rightarrow> []
                | Some c \<Rightarrow> if truthy c then [Called_back (callback_id c)] else [])
         \<and> callbacks before = []
         \<and> Destroyed (length (surfaces w)) \<notin> set before
         \<and> callbacks (drop (length (effects w)) (effects w')) =
             (case callback of
                None \<Rightarrow> []
              | Some c \<Rightarrow> if truthy c then [callback_id c] else [])
         \<and> root_window self' = None
         \<and> lookup_surface w' (length (surfaces w)) = None"
proof -
  let ?r = "length (surfaces w)"
  let ?before = "Drawn ?r 0 ''Initializing...''
      # concat (map (step_effects ?r (truediv d 7)) (butlast steps))"
  let ?new = "Drawn ?r 0 ''Initializing...''
      # concat (map (step_effects ?r (truediv d 7)) steps)
      @ [Slept (Finite 0.5), Destroyed ?r] @ callback_effects callback"
  have "root_window (splash_init d) = None"
      and "sleep_accepts (truediv (duration (splash_init d)) 7)"
    using assms by (simp_all add: splash_init_def)
  from show_splash_fresh [OF this, of callback w]
  obtain self' w' where run: "show_splash_screen d callback w = Returned (self', w')"
      and eff: "effects w' = effects w @ ?new"
      and closed: "root_window self' = None" "lookup_surface w' ?r = None"
    by (auto simp: show_splash_screen_def splash_init_def)
  have split: "?new = ?before
      @ [Printed_updating 100 ''Ready!'', Drawn ?r 100 ''Ready!'', Drawn ?r 100 ''Ready!'',
         Drawn ?r 100 ''Ready!'', Slept (truediv d 7), Slept (Finite 0.5), Destroyed ?r]
      @ (case callback of
           None \<Rightarrow> []
         | Some c \<Rightarrow> if truthy c then [Called_back (callback_id c)] else [])"
    by (simp add: steps_def step_effects_def callback_effects_def)
  have quiet: "callbacks ?before = []" "Destroyed ?r \<notin> set ?before"
    by (simp_all add: steps_def step_effects_def)
  have once: "callbacks ?new =
      (case callback of None \<Rightarrow> [] | Some c \<Rightarrow> if truthy c then [callback_id c] else [])"
    by (cases callback) (simp_all add: steps_def step_effects_def callback_effects_def)
  have "callbacks (drop (length (effects w)) (effects w')) =
      (case callback of None \<Rightarrow> [] | Some c \<Rightarrow> if truthy c then [callback_id c] else [])"
    using once by (simp add: eff)
  then show ?thesis
    using run eff closed quiet unfolding split by blast
qed

theorem completion_order_witness:
  "sleep_accepts (truediv (Finite 0.7) 7)
   \<and> truthy \<lparr>callback_id = 4, truthy = True\<rparr>
   \<and> (\<exists>self' w' before.
           show_splash_screen (Finite 0.7) (Some \<lparr>callback_id = 4, truthy = True\<rparr>) world0
             = Returned (self', w')
         \<and> effects w' = before
             @ [Printed_updating 100 ''Ready!'',
                Drawn 0 100 ''Ready!'', Drawn 0 100 ''Ready!'', Drawn 0 100 ''Ready!'',
                Slept (Finite 0.1), Slept (Finite 0.5), Destroyed 0, Called_back 4]
         \<and> callbacks before = []
         \<and> Destroyed 0 \<notin> set before
         \<and> callbacks (effects w') = [4]
         \<and> root_window self' = None
         \<and> lookup_surface w' 0 = None)"
  using completion_order [of "Finite 0.7" "Some \<lparr>callback_id = 4, truthy = True\<rparr>" world0]
  by (simp add: world0_def sleep_accepts_def)

text \<open>
  Claim C7 as stated, for every run with a callback, fails. With duration -7 the run
  raises \<^verbatim>\<open>ValueError\<close> in its first sleep and with duration 100000000000 it raises
  \<^verbatim>\<open>OverflowError\<close> there: the window stays and the callback is never called. And a
  callback that counts as false is not called by a run that completes.
\<close>

theorem completion_order_counterexample:
  "raised (show_splash_screen (Finite (- 7)) (Some \<lparr>callback_id = 0, truthy = True\<rparr>) world0)
     = Some ValueError
   \<and> callbacks (effects (snd (state_of
        (show_splash_screen (Finite (- 7)) (Some \<lparr>callback_id = 0, truthy = True\<rparr>) world0)))) = []
   \<and> lookup_surface (snd (state_of
        (show_splash_screen (Finite (- 7)) (Some \<lparr>callback_id = 0, truthy = True\<rparr>) world0))) 0
       \<noteq> None
   \<and> raised (show_splash_screen (Finite 100000000000)
        (Some \<lparr>callback_id = 0, truthy = True\<rparr>) world0) = Some OverflowError
   \<and> callbacks (effects (snd (state_of
        (show_splash_screen (Finite 100000000000)
           (Some \<lparr>callback_id = 0, truthy = True\<rparr>) world0)))) = []
   \<and> raised (show_splash_screen (Finite 0.7) (Some \<lparr>callback_id = 0, truthy = False\<rparr>) world0)
       = None
   \<and> callbacks (effects (snd (state_of
        (show_splash_screen (Finite 0.7) (Some \<lparr>callback_id = 0, truthy = False\<rparr>) world0)))) = []"
  by (simp add: run_defs)

subsection \<open>Updates without a window\<close>

lemma update_progress_guard:
  "progress_var self = None \<or> status_label self = None \<or> root_window self = None \<Longrightarrow>
   update_progress self v status w = w"
  by (auto simp: update_progress_def split: option.splits)

lemma update_progress_destroyed_surface:
  "progress_var self = Some r \<Longrightarrow> status_label self = Some r \<Longrightarrow> root_window self = Some r \<Longrightarrow>
   lookup_surface w r = None \<Longrightarrow>
   update_progress self v status w = emit (Printed_error TclError) w"
  by (simp add: update_progress_def update_progress_body_def tk_var_set_def
                tk_label_config_def tk_update_def)

lemma close_splash_clears_root:
  "close_splash (self, w) = Returned (self', w') \<Longrightarrow> root_window self' = None"
  by (auto simp: close_splash_def tk_destroy_def split: option.splits)

text \<open>
  Claim C6, amended. \<^verbatim>\<open>update_progress\<close> on an object that has no window, because
  \<^verbatim>\<open>create_splash\<close> has not run or \<^verbatim>\<open>close_splash\<close> has returned, leaves the world as it
  is: no window changes and nothing is printed. The method has no way to raise.
\<close>

theorem update_progress_without_surface:
  "update_progress (splash_init d) v status w = w
   \<and> (close_splash sw = Returned (self', w') \<longrightarrow>
        update_progress self' v status w' = w')"
  using close_splash_clears_root [of "fst sw" "snd sw" self' w']
  by (simp add: update_progress_guard splash_init_def)

theorem update_progress_without_surface_witness:
  "close_splash (create_splash (splash_init (Finite 3), world0)) =
     Returned (\<lparr>duration = Finite 3, root_window = None, progress_var = Some 0, progress_bar = Some 0,
                status_label = Some 0\<rparr>,
               \<lparr>screen_width = 1920, screen_height = 1080, surfaces = [None],
                effects = [Destroyed 0]\<rparr>)
   \<and> update_progress
        \<lparr>duration = Finite 3, root_window = None, progress_var = Some 0, progress_bar = Some 0,
         status_label = Some 0\<rparr> 50 ''Halfway''
        \<lparr>screen_width = 1920, screen_height = 1080, surfaces = [None],
         effects = [Destroyed 0]\<rparr>
      = \<lparr>screen_width = 1920, screen_height = 1080, surfaces = [None],
         effects = [Destroyed 0]\<rparr>
   \<and> update_progress (splash_init (Finite 3)) 50 ''Halfway'' world0 = world0"
  using update_progress_without_surface
    [where sw = "create_splash (splash_init (Finite 3), world0)"
       and w = world0
       and self' = "\<lparr>duration = Finite 3, root_window = None, progress_var = Some 0,
                     progress_bar = Some 0, status_label = Some 0\<rparr>"
       and w' = "\<lparr>screen_width = 1920, screen_height = 1080, surfaces = [None],
                  effects = [Destroyed 0]\<rparr>"
       and d = "Finite 3" and v = 50 and status = "''Halfway''"]
  by (simp add: splash_init_def create_splash_def close_splash_def tk_destroy_def
                lookup_surface_def emit_def world0_def Let_def)

text \<open>
  Claim C6 as stated says that an error is logged. Nothing is: before
  \<^verbatim>\<open>create_splash\<close> the output stays empty, and after \<^verbatim>\<open>close_splash\<close> the only effect
  on record is the destruction of the window.
\<close>

theorem update_progress_without_surface_counterexample:
  "effects (update_progress (splash_init (Finite 3)) 50 ''Halfway'' world0) = []
   \<and> effects (update_progress
        (fst (state_of (close_splash (create_splash (splash_init (Finite 3), world0))))) 50 ''Halfway''
        (snd (state_of (close_splash (create_splash (splash_init (Finite 3), world0))))))
      = [Destroyed 0]"
  by (simp add: run_defs)

subsection \<open>The class invariant\<close>

lemma lookup_surface_liveness:
  "lookup_surface w r \<noteq> None \<longleftrightarrow> r < length (liveness w) \<and> liveness w ! r"
  by (simp add: lookup_surface_def liveness_def)

lemma length_liveness: "length (liveness w) = length (surfaces w)"
  by (simp add: liveness_def)

lemma liveness_emit [simp]: "liveness (emit e w) = liveness w"
  by (simp add: liveness_def emit_def)

lemma liveness_redraw:
  "lookup_surface w r = Some s \<Longrightarrow>
   liveness (w\<lparr>surfaces := (surfaces w)[r := Some s']\<rparr>) = liveness w"
  by (simp add: liveness_def lookup_surface_Some map_update list_update_same_conv)

lemma and_then_keeps:
  assumes "P (state_of m)" and "\<And>s. P s \<Longrightarrow> P (state_of (f s))"
  shows "P (state_of (and_then m f))"
  using assms by (cases m) simp_all

lemma liveness_tk_deiconify: "liveness (state_of (tk_deiconify r w)) = liveness w"
  by (simp add: tk_deiconify_def split: option.splits)

lemma liveness_tk_update: "liveness (state_of (tk_update r w)) = liveness w"
  by (simp add: tk_update_def split: option.splits)

lemma liveness_tk_var_set: "liveness (state_of (tk_var_set r v w)) = liveness w"
  by (simp add: tk_var_set_def liveness_redraw split: option.splits)

lemma liveness_tk_label_config: "liveness (state_of (tk_label_config r t w)) = liveness w"
  by (simp add: tk_label_config_def liveness_redraw split: option.splits)

lemma liveness_time_sleep: "liveness (state_of (time_sleep secs w)) = liveness w"
  by (cases secs) (simp_all add: time_sleep_def Let_def)

lemma liveness_call_back: "liveness (state_of (call_back callback w)) = liveness w"
  by (cases callback) simp_all

lemma liveness_update_progress_body:
  "liveness (state_of (update_progress_body var label r v status w)) = liveness w"
  unfolding update_progress_body_def
  by (intro and_then_keeps [where P = "\<lambda>w'. liveness w' = liveness w"])
     (simp_all add: liveness_tk_var_set liveness_tk_update liveness_tk_label_config
        and_then_keeps [where P = "\<lambda>w'. liveness w' = liveness w"])

lemma liveness_update_progress: "liveness (update_progress self v status w) = liveness w"
proof -
  have "liveness (case m of Returned w' \<Rightarrow> w' | Raised e w' \<Rightarrow> emit (Printed_error e) w')
      = liveness (state_of m)" for m :: "world outcome"
    by (cases m) simp_all
  then show ?thesis
    by (simp add: update_progress_def liveness_update_progress_body split: option.splits)
qed

lemma liveness_animate: "liveness (state_of (animate self secs sts w)) = liveness w"
proof (induction sts arbitrary: w)
  case Nil
  show ?case by simp
next
  case (Cons st sts)
  obtain p t where st: "st = (p, t)" by (cases st)
  show ?case
    unfolding st animate.simps
    by (rule and_then_keeps [where P = "\<lambda>w'. liveness w' = liveness w"])
       (simp_all add: liveness_time_sleep liveness_update_progress Cons.IH)
qed

lemma state_of_in_world:
  "state_of (in_world f sw) = (fst sw, state_of (f (snd sw)))"
  by (cases sw) (simp split: outcome.splits)

lemma count_close_splash:
  "length (surfaces (snd (state_of (close_splash sw)))) = length (surfaces (snd sw))"
  by (cases sw)
     (simp add: close_splash_def tk_destroy_def emit_def split: option.splits)

lemma count_show_splash_existing:
  assumes "root_window self \<noteq> None"
  shows "length (surfaces (snd (state_of (show_splash callback (self, w))))) = length (surfaces w)"
proof -
  from assms obtain r where r: "root_window self = Some r" by auto
  let ?P = "\<lambda>sw'. length (surfaces (snd sw')) = length (surfaces w)"
  have step: "?P (state_of (in_world f sw'))"
    if "\<And>w'. liveness (state_of (f w')) = liveness w'" and "?P sw'" for f sw'
    using that(2) length_liveness [of "state_of (f (snd sw'))"] length_liveness [of "snd sw'"]
    by (simp add: state_of_in_world that(1))
  have "?P (state_of (
      and_then (and_then (and_then (and_then (and_then
        (in_world (tk_deiconify r) (self, w))
        (in_world (tk_update r)))
        (in_world (animate self (truediv (duration self) (length steps)) steps)))
        (in_world (time_sleep (Finite 0.5))))
        close_splash)
        (in_world (call_back callback))))"
    by (intro and_then_keeps [where P = ?P] step)
       (simp_all add: liveness_tk_deiconify liveness_tk_update liveness_animate
          liveness_time_sleep liveness_call_back count_close_splash)
  then show ?thesis
    using r by (simp add: show_splash_def Let_def)
qed

lemma consistent_world:
  "consistent (self, w) \<Longrightarrow> liveness w' = liveness w \<Longrightarrow> consistent (self, w')"
  by (simp add: consistent_def lookup_surface_liveness del: not_None_eq split: option.splits)

lemma consistent_init: "consistent (splash_init d, w)"
  by (simp add: consistent_def splash_init_def)

lemma consistent_create_splash: "consistent (create_splash sw)"
  by (cases sw) (simp add: consistent_def create_splash_def lookup_surface_def Let_def)

lemma consistent_update_progress:
  "consistent (self, w) \<Longrightarrow> consistent (self, update_progress self v status w)"
  by (rule consistent_world) (simp_all add: liveness_update_progress)

lemma consistent_close_splash:
  "consistent sw \<Longrightarrow> consistent (state_of (close_splash sw))"
  by (cases sw)
     (auto simp: consistent_def close_splash_def tk_destroy_def split: option.splits)

lemma consistent_show_splash:
  assumes "consistent sw"
  shows "consistent (state_of (show_splash callback sw))"
proof -
  define sw1 where "sw1 = (if root_window (fst sw) = None then create_splash sw else sw)"
  have sw1: "consistent sw1"
    using assms by (simp add: sw1_def consistent_create_splash)
  have step: "consistent (state_of (in_world f sw'))"
    if "\<And>w'. liveness (state_of (f w')) = liveness w'" and "consistent sw'" for f sw'
    using that(2) consistent_world [of "fst sw'" "snd sw'" "state_of (f (snd sw'))"]
    by (simp add: state_of_in_world that(1))
  show ?thesis
  proof (cases "root_window (fst sw1)")
    case None
    then show ?thesis
      using sw1 by (simp add: show_splash_def Let_def sw1_def [symmetric])
  next
    case (Some r)
    have "consistent (state_of (
        and_then (and_then (and_then (and_then (and_then
          (in_world (tk_deiconify r) sw1)
          (in_world (tk_update r)))
          (in_world (animate (fst sw1) (truediv (duration (fst sw1)) (length steps)) steps)))
          (in_world (time_sleep (Finite 0.5))))
          close_splash)
          (in_world (call_back callback))))"
      by (intro and_then_keeps [where P = consistent] step consistent_close_splash sw1)
         (simp_all add: liveness_tk_deiconify liveness_tk_update liveness_animate
            liveness_time_sleep liveness_call_back)
    then show ?thesis
      using Some by (simp add: show_splash_def Let_def sw1_def [symmetric])
  qed
qed

subsection \<open>Closing and creating\<close>

text \<open>
  Claim C8. On an object that satisfies the class invariant \<^verbatim>\<open>close_splash\<close> returns
  without raising and leaves \<^verbatim>\<open>root\<close> unset; a second call returns too and changes
  nothing. In any state, when a first call has returned, the second returns and
  changes nothing.
\<close>

theorem close_splash_idempotent:
  "(consistent sw \<longrightarrow>
      (\<exists>sw'. close_splash sw = Returned sw'
            \<and> close_splash sw' = Returned sw'
            \<and> root_window (fst sw') = None))
   \<and> (close_splash sw = Returned sw' \<longrightarrow> close_splash sw' = Returned sw')"
proof -
  have again: "close_splash sw2 = Returned sw2" if "close_splash sw1 = Returned sw2" for sw1 sw2
  proof -
    from that have "root_window (fst sw2) = None"
      using close_splash_clears_root [of "fst sw1" "snd sw1" "fst sw2" "snd sw2"] by simp
    then show ?thesis
      by (cases sw2) (simp add: close_splash_def)
  qed
  have first: "\<exists>sw'. close_splash sw = Returned sw'" if "consistent sw"
  proof (cases "root_window (fst sw)")
    case None
    then show ?thesis
      by (cases sw) (simp add: close_splash_def)
  next
    case (Some r)
    with that obtain s where "lookup_surface (snd sw) r = Some s"
      by (auto simp: consistent_def)
    with Some show ?thesis
      by (cases sw) (simp add: close_splash_def tk_destroy_def)
  qed
  have twice: "\<exists>sw'. close_splash sw = Returned sw' \<and> close_splash sw' = Returned sw'
      \<and> root_window (fst sw') = None" if "consistent sw"
  proof -
    from first [OF that] obtain sw' where r: "close_splash sw = Returned sw'" ..
    then have "root_window (fst sw') = None"
      using close_splash_clears_root [of "fst sw" "snd sw" "fst sw'" "snd sw'"] by simp
    with r again [OF r] show ?thesis by blast
  qed
  show ?thesis
    using twice again by blast
qed

theorem close_splash_idempotent_witness:
  "consistent (create_splash (splash_init (Finite 3), world0))
   \<and> close_splash (create_splash (splash_init (Finite 3), world0)) =
       Returned (\<lparr>duration = Finite 3, root_window = None, progress_var = Some 0,
                  progress_bar = Some 0, status_label = Some 0\<rparr>,
                 \<lparr>screen_width = 1920, screen_height = 1080, surfaces = [None],
                  effects = [Destroyed 0]\<rparr>)
   \<and> close_splash (\<lparr>duration = Finite 3, root_window = None, progress_var = Some 0,
                     progress_bar = Some 0, status_label = Some 0\<rparr>,
                    \<lparr>screen_width = 1920, screen_height = 1080, surfaces = [None],
                     effects = [Destroyed 0]\<rparr>) =
       Returned (\<lparr>duration = Finite 3, root_window = None, progress_var = Some 0,
                  progress_bar = Some 0, status_label = Some 0\<rparr>,
                 \<lparr>screen_width = 1920, screen_height = 1080, surfaces = [None],
                  effects = [Destroyed 0]\<rparr>)"
  using close_splash_idempotent
    [where sw = "create_splash (splash_init (Finite 3), world0)"
       and sw' = "(\<lparr>duration = Finite 3, root_window = None, progress_var = Some 0,
                    progress_bar = Some 0, status_label = Some 0\<rparr>,
                   \<lparr>screen_width = 1920, screen_height = 1080, surfaces = [None],
                    effects = [Destroyed 0]\<rparr>)"]
  by (simp add: consistent_def create_splash_def splash_init_def world0_def lookup_surface_def
                close_splash_def tk_destroy_def emit_def Let_def)

text \<open>
  Claim C9, amended. \<^verbatim>\<open>create_splash\<close> has no guard: every call makes a new window,
  beside those that exist. The guard is in \<^verbatim>\<open>show_splash\<close>: when \<^verbatim>\<open>root\<close> is set, the
  run makes no window, however it ends; when \<^verbatim>\<open>root\<close> is unset it makes exactly one.
  When moreover the object satisfies the class invariant and \<^verbatim>\<open>time.sleep\<close> accepts
  the seventh part of the duration, the run on a set \<^verbatim>\<open>root\<close> completes, and the window
  it destroys is the window of \<^verbatim>\<open>root\<close>.
\<close>

theorem create_guard_in_show_splash:
  "root_window (fst (create_splash (self, w))) = Some (length (surfaces w))
   \<and> length (surfaces (snd (create_splash (self, w)))) = Suc (length (surfaces w))
   \<and> take (length (surfaces w)) (surfaces (snd (create_splash (self, w)))) = surfaces w
   \<and> (root_window self \<noteq> None \<longrightarrow>
        length (surfaces (snd (state_of (show_splash callback (self, w))))) = length (surfaces w))
   \<and> (root_window self = None \<longrightarrow>
        length (surfaces (snd (state_of (show_splash callback (self, w)))))
          = Suc (length (surfaces w)))
   \<and> (consistent (self, w) \<and> root_window self = Some r
        \<and> sleep_accepts (truediv (duration self) 7) \<longrightarrow>
        (\<exists>w'. show_splash callback (self, w) = Returned (self\<lparr>root_window := None\<rparr>, w')
            \<and> Destroyed r \<in> set (effects w')
            \<and> lookup_surface w' r = None))"
proof -
  have created: "root_window (fst (create_splash (self, w))) = Some (length (surfaces w))"
      "length (surfaces (snd (create_splash (self, w)))) = Suc (length (surfaces w))"
      "take (length (surfaces w)) (surfaces (snd (create_splash (self, w)))) = surfaces w"
    by (simp_all add: create_splash_def Let_def)
  have fresh: "length (surfaces (snd (state_of (show_splash callback (self, w)))))
      = Suc (length (surfaces w))" if "root_window self = None"
  proof -
    obtain self1 w1 where c: "create_splash (self, w) = (self1, w1)"
      by (cases "create_splash (self, w)")
    with created have "root_window self1 \<noteq> None" "length (surfaces w1) = Suc (length (surfaces w))"
      by simp_all
    then show ?thesis
      using that c count_show_splash_existing [of self1 callback w1]
      by (simp add: show_splash_creates)
  qed
  have reused: "\<exists>w'. show_splash callback (self, w) = Returned (self\<lparr>root_window := None\<rparr>, w')
      \<and> Destroyed r \<in> set (effects w') \<and> lookup_surface w' r = None"
    if "consistent (self, w)" and "root_window self = Some r"
      and "sleep_accepts (truediv (duration self) 7)"
  proof -
    from that(1,2) obtain s where attrs: "progress_var self = Some r" "status_label self = Some r"
        "lookup_surface w r = Some s"
      by (auto simp: consistent_def)
    from show_splash_existing [OF attrs(1,2) that(2) attrs(3) that(3), of callback]
    show ?thesis by auto
  qed
  show ?thesis
    using created fresh reused count_show_splash_existing [of self callback w] by blast
qed

theorem create_guard_in_show_splash_witness:
  "consistent (create_splash (splash_init (Finite 0.7), world0))
   \<and> root_window (fst (create_splash (splash_init (Finite 0.7), world0))) = Some 0
   \<and> sleep_accepts (truediv (duration (fst (create_splash (splash_init (Finite 0.7), world0)))) 7)
   \<and> length (surfaces (snd (create_splash (splash_init (Finite 0.7), world0)))) = 1
   \<and> length (surfaces (snd (state_of (show_splash None (create_splash (splash_init (Finite 0.7), world0)))))) = 1
   \<and> root_window (splash_init (Finite 0.7)) = None
   \<and> length (surfaces (snd (state_of (show_splash None (splash_init (Finite 0.7), world0))))) = 1
   \<and> (\<exists>w'. show_splash None (create_splash (splash_init (Finite 0.7), world0))
              = Returned ((fst (create_splash (splash_init (Finite 0.7), world0)))\<lparr>root_window := None\<rparr>, w')
          \<and> Destroyed 0 \<in> set (effects w')
          \<and> lookup_surface w' 0 = None)"
  using create_guard_in_show_splash
          [of "fst (create_splash (splash_init (Finite 0.7), world0))"
              "snd (create_splash (splash_init (Finite 0.7), world0))" None 0]
        create_guard_in_show_splash [of "splash_init (Finite 0.7)" world0 None 0]
  by (simp add: consistent_def create_splash_def splash_init_def world0_def lookup_surface_def
                sleep_accepts_def Let_def)

text \<open>
  Claim C9 as stated fails: a second \<^verbatim>\<open>create_splash\<close> makes a second window and
  \<^verbatim>\<open>root\<close> refers to it, while the first window still exists.
\<close>

theorem create_guard_in_show_splash_counterexample:
  "root_window (fst (create_splash (splash_init (Finite 3), world0))) = Some 0
   \<and> root_window (fst (create_splash (create_splash (splash_init (Finite 3), world0)))) = Some 1
   \<and> length (surfaces (snd (create_splash (create_splash (splash_init (Finite 3), world0))))) = 2
   \<and> lookup_surface (snd (create_splash (create_splash (splash_init (Finite 3), world0)))) 0 \<noteq> None"
  by (simp add: create_splash_def splash_init_def world0_def lookup_surface_def Let_def)

end
